theory Spec2Isabelle
  imports Complex_Main "HOL-Library.Word"
begin

section \<open>A shallow embedding of the coinmarketcap client\<close>

text \<open>
  The Go package \<^verbatim>\<open>coinmarketcap\<close> fetches JSON from an API and scrapes two HTML tables.
  Every function of the package that the properties below talk about is translated here,
  branch by branch.  What the package takes from elsewhere is a parameter of the model,
  collected in the record \<open>env\<close>: the HTTP client, the HTML and JSON parsers, the
  number and date parsers of the standard library and the Unicode tables.

  Conventions.
  \<^item> A Go result pair \<^verbatim>\<open>(v, err)\<close> is a HOL pair \<open>(v, e)\<close> with \<open>e :: error option\<close>;
    \<open>None\<close> is \<^verbatim>\<open>nil\<close>.  A nil slice is \<open>[]\<close>, a nil pointer is \<open>None\<close>.
  \<^item> A run either returns or panics (\<open>outcome\<close>), and it leaves the list of the URLs it
    requested, in order (\<open>io\<close>).
  \<^item> \<^verbatim>\<open>float64\<close> values are carried as reals: they are parsed by a parameter, stored and
    compared with zero, and nothing below depends on rounding.
\<close>

subsection \<open>Errors, panics and the request log\<close>

datatype error =
    NetError string      \<comment> \<open>net/http, soup, goquery: the request could not be built, sent or read\<close>
  | Errorf string        \<comment> \<open>\<^verbatim>\<open>fmt.Errorf("%s", body)\<close>\<close>
  | SyntaxError string   \<comment> \<open>\<^verbatim>\<open>json.Unmarshal\<close>\<close>
  | ErrorsNew string     \<comment> \<open>\<^verbatim>\<open>errors.New(msg)\<close>\<close>

fun Error :: "error \<Rightarrow> string" where
  "Error (NetError m) = m"
| "Error (Errorf m) = m"
| "Error (SyntaxError m) = m"
| "Error (ErrorsNew m) = m"

datatype panic = NilDereference | IndexOutOfRange

datatype 'a outcome = Panic panic | Return 'a

type_synonym 'a io = "'a outcome \<times> string list"

definition io_return :: "'a \<Rightarrow> 'a io" where
  "io_return v = (Return v, [])"

definition io_panic :: "panic \<Rightarrow> 'a io" where
  "io_panic p = (Panic p, [])"

definition io_bind :: "'a io \<Rightarrow> ('a \<Rightarrow> 'b io) \<Rightarrow> 'b io" where
  "io_bind m f =
     (case m of
        (Panic p, reqs) \<Rightarrow> (Panic p, reqs)
      | (Return v, reqs) \<Rightarrow> (case f v of (r, reqs') \<Rightarrow> (r, reqs @ reqs')))"

subsection \<open>The string functions of the standard library that the package calls\<close>

definition isASCII :: "char \<Rightarrow> bool" where
  "isASCII c = ((of_char c :: nat) < 128)"

definition asciiSpace :: "char \<Rightarrow> bool" where
  "asciiSpace c = ((of_char c :: nat) = 9 \<or> (of_char c :: nat) = 10 \<or> (of_char c :: nat) = 11
      \<or> (of_char c :: nat) = 12 \<or> (of_char c :: nat) = 13 \<or> (of_char c :: nat) = 32)"

definition upper_byte :: "char \<Rightarrow> char" where
  "upper_byte c =
     (if 97 \<le> (of_char c :: nat) \<and> (of_char c :: nat) \<le> 122
      then char_of ((of_char c :: nat) - 32) else c)"

text \<open>
  \<^verbatim>\<open>strings.ToUpper\<close>: an ASCII-only string is mapped byte by byte; any other string goes
  through \<^verbatim>\<open>strings.Map(unicode.ToUpper, s)\<close>, here the parameter \<open>U\<close>.
\<close>

definition ToUpper :: "(string \<Rightarrow> string) \<Rightarrow> string \<Rightarrow> string" where
  "ToUpper U s = (if list_all isASCII s then map upper_byte s else U s)"

text \<open>
  \<^verbatim>\<open>strings.TrimSpace\<close>: ASCII white space is cut from the left, then from the right; when
  either scan meets a byte that is not ASCII, the rest is left to \<^verbatim>\<open>TrimFunc\<close>
  (\<open>TL\<close>) or \<^verbatim>\<open>TrimRightFunc\<close> (\<open>TR\<close>) with \<^verbatim>\<open>unicode.IsSpace\<close>.
\<close>

definition TrimSpace :: "(string \<Rightarrow> string) \<Rightarrow> (string \<Rightarrow> string) \<Rightarrow> string \<Rightarrow> string" where
  "TrimSpace TL TR s =
     (case dropWhile asciiSpace s of
        [] \<Rightarrow> []
      | c # cs \<Rightarrow>
          if \<not> isASCII c then TL (c # cs)
          else (case dropWhile asciiSpace (rev (c # cs)) of
                  [] \<Rightarrow> []
                | d # ds \<Rightarrow> if \<not> isASCII d then TR (rev (d # ds)) else rev (d # ds)))"

text \<open>
  \<^verbatim>\<open>strings.Replace(s, old, new, -1)\<close> for a non-empty \<open>old\<close>: every non-overlapping
  occurrence, from the left.  The package only calls it with a one-byte \<open>old\<close>.
\<close>

function Replace :: "string \<Rightarrow> string \<Rightarrow> string \<Rightarrow> string" where
  "Replace [] old new = []"
| "Replace (c # cs) old new =
     (if old \<noteq> [] \<and> take (length old) (c # cs) = old
      then new @ Replace (drop (length old) (c # cs)) old new
      else c # Replace cs old new)"
  by pat_completeness auto
termination
  by (relation "measure (\<lambda>(s, old, new). length s)") auto

text \<open>\<^verbatim>\<open>strings.Split(s, sep)\<close> for a non-empty \<open>sep\<close>; \<open>cur\<close> is the piece being read.\<close>

function Split_from :: "string \<Rightarrow> string \<Rightarrow> string \<Rightarrow> string list" where
  "Split_from cur [] sep = [cur]"
| "Split_from cur (c # cs) sep =
     (if sep \<noteq> [] \<and> take (length sep) (c # cs) = sep
      then cur # Split_from [] (drop (length sep) (c # cs)) sep
      else Split_from (cur @ [c]) cs sep)"
  by pat_completeness auto
termination
  by (relation "measure (\<lambda>(cur, s, sep). length s)") auto

definition Split :: "string \<Rightarrow> string \<Rightarrow> string list" where
  "Split s sep = Split_from [] s sep"

definition TrimSuffix :: "string \<Rightarrow> string \<Rightarrow> string" where
  "TrimSuffix s suffix =
     (if length suffix \<le> length s \<and> drop (length s - length suffix) s = suffix
      then take (length s - length suffix) s else s)"

fun Join :: "string list \<Rightarrow> string \<Rightarrow> string" where
  "Join [] sep = []"
| "Join [x] sep = x"
| "Join (x # y # ys) sep = x @ sep @ Join (y # ys) sep"

text \<open>Decimal formatting, \<^verbatim>\<open>%d\<close> and \<^verbatim>\<open>%v\<close> of an integer.\<close>

fun digits :: "nat \<Rightarrow> string" where
  "digits n = (if n < 10 then [char_of (48 + n)] else digits (n div 10) @ [char_of (48 + n mod 10)])"

definition Itoa :: "int \<Rightarrow> string" where
  "Itoa i = (if i < 0 then CHR ''-'' # digits (nat (- i)) else digits (nat i))"

subsection \<open>The records of package \<^verbatim>\<open>types\<close>\<close>

text \<open>
  Modelled from the spec: package \<^verbatim>\<open>types\<close> (\<^verbatim>\<open>types.Listing\<close>, \<^verbatim>\<open>types.Ticker\<close>,
  \<^verbatim>\<open>types.Market\<close>, \<^verbatim>\<open>types.Exchange\<close>) is imported by the source and is not part of it.
  The fields are the ones the source reads or writes, with the types it uses them at.
  \<open>Quotes\<close> maps a currency code to a pointer to a quote; it is given as the list of its
  entries and read with \<open>map_of\<close>, and a key that is absent reads as the nil pointer
  \<open>None\<close>.
\<close>

record Listing =
  ID :: int
  Name :: string
  Symbol :: string
  Slug :: string

record TickerQuote =
  Price :: real
  Volume24H :: real
  MarketCap :: real

record Ticker =
  ID :: int
  Name :: string
  Symbol :: string
  Slug :: string
  Rank :: int
  Quotes :: "(string \<times> TickerQuote) list"

record Market =
  Rank :: int
  Exchange :: string
  ExchangeSlug :: string
  Pair :: string
  VolumeUSD :: real
  Price :: real
  VolumePercent :: real
  Category :: string
  FeeType :: string
  Updated :: string

text \<open>A \<^verbatim>\<open>time.Time\<close> that holds a calendar date; the zero value is 1 January of year 1.\<close>

datatype Time = Date int int int

definition zeroTime :: Time where
  "zeroTime = Date 1 1 1"

record Exchange =
  Rank :: int
  Name :: string
  Slug :: string
  LogoImg :: string
  AdjustVolume24h :: real
  Volume24h :: real
  Volume7d :: real
  Volume30d :: real
  MarketsNumber :: int
  Change24h :: real
  LaunchedAt :: Time

subsection \<open>The response media and the option records of the package\<close>

record listingsMedia =
  Data :: "Listing option list"

text \<open>
  \<open>Data\<close> of \<open>tickersMedia\<close> is a Go map; it is given as the list of its entries in the
  order in which \<^verbatim>\<open>range\<close> visits them, which Go leaves open.
\<close>

record tickersMedia =
  Data :: "(string \<times> Ticker option) list"
  Metadata_Timestamp :: int
  Metadata_NumCryptoCurrencies :: int
  Metadata_Error :: string

record tickerMedia =
  Data :: "Ticker option"

record TickersOptions =
  Start :: int
  Limit :: int
  Convert :: string
  Sort :: string

record TickerOptions =
  Symbol :: string
  Convert :: string

record MarketsOptions =
  Symbol :: string
  Slug :: string

record PriceOptions =
  Symbol :: string
  Convert :: string

subsection \<open>The environment\<close>

text \<open>
  What \<^verbatim>\<open>client.Do\<close> followed by \<^verbatim>\<open>ioutil.ReadAll\<close> gives for a URL: the request fails,
  the body cannot be read, or there is a status code and a body.
\<close>

datatype do_outcome = DoError string | ReadAllError string | Response int string

text \<open>The two errors of package \<^verbatim>\<open>strconv\<close>: the text is not a number, or the number does not fit.\<close>

datatype NumError = ErrSyntax | ErrRange

text \<open>
  One table cell after parsing: the \<^verbatim>\<open>data-sort\<close> attribute when there is one, the text,
  and the \<^verbatim>\<open>href\<close> of the first link and the \<^verbatim>\<open>src\<close> of the first image inside, when
  there are any.  A page is given by the rows of its table, each row by its cells; what
  the HTML libraries do on a page that has no such table is outside the model.
\<close>

record td =
  data_sort :: "string option"
  text_of :: string
  a_href :: "string option"
  img_src :: "string option"

record env =
  NewRequest :: "string \<Rightarrow> string option"
    \<comment> \<open>\<^verbatim>\<open>http.NewRequest("GET", url, nil)\<close>: the message of its error, if any\<close>
  client_Do :: "string \<Rightarrow> do_outcome"
  soup_Get :: "string \<Rightarrow> string + string"
    \<comment> \<open>\<^verbatim>\<open>soup.Get(url)\<close>: \<open>Inl\<close> the message of the error, \<open>Inr\<close> the page\<close>
  markets_table :: "string \<Rightarrow> td list list"
    \<comment> \<open>the \<^verbatim>\<open>tr\<close> rows of \<^verbatim>\<open>tbody\<close> of table \<^verbatim>\<open>markets-table\<close> of a page, each with its \<^verbatim>\<open>td\<close> cells\<close>
  goquery_NewDocument :: "string \<Rightarrow> string + td list list"
    \<comment> \<open>\<^verbatim>\<open>goquery.NewDocument(url)\<close>: \<open>Inl\<close> the message of the error, \<open>Inr\<close> the rows
        \<^verbatim>\<open>table#exchange-rankings tbody tr\<close> of the document, each with its \<^verbatim>\<open>td\<close> cells\<close>
  decode_listingsMedia :: "string \<Rightarrow> string + listingsMedia"
  decode_tickersMedia :: "string \<Rightarrow> string + tickersMedia"
  decode_tickerMedia :: "string \<Rightarrow> string + tickerMedia"
    \<comment> \<open>the JSON decoder at the three types: \<open>Inl\<close> the message of the error\<close>
  unicode_ToUpper :: "string \<Rightarrow> string"
  unicode_TrimFunc :: "string \<Rightarrow> string"
  unicode_TrimRightFunc :: "string \<Rightarrow> string"
  Atoi :: "string \<Rightarrow> int \<times> NumError option"
  ParseFloat :: "string \<Rightarrow> real \<times> NumError option"
    \<comment> \<open>\<^verbatim>\<open>strconv.Atoi(s)\<close> and \<^verbatim>\<open>strconv.ParseFloat(s, 64)\<close>: the value and the error\<close>
  time_Parse :: "string \<Rightarrow> string \<Rightarrow> Time \<times> string option"
    \<comment> \<open>\<^verbatim>\<open>time.Parse(layout, value)\<close>: the value and the message of the error\<close>

definition siteURL :: string where
  "siteURL = ''https://coinmarketcap.com''"

definition baseURL :: string where
  "baseURL = ''https://api.coinmarketcap.com/v2''"

text \<open>
  \<^verbatim>\<open>json.Unmarshal(data, &v)\<close>: the decoder first checks that \<open>data\<close> is valid JSON, and empty
  input (also the nil slice) is not.
\<close>

definition json_Unmarshal :: "(string \<Rightarrow> string + 'a) \<Rightarrow> string \<Rightarrow> error + 'a" where
  "json_Unmarshal dec data =
     (if data = [] then Inl (SyntaxError ''unexpected end of JSON input'')
      else (case dec data of Inl m \<Rightarrow> Inl (SyntaxError m) | Inr v \<Rightarrow> Inr v))"

subsection \<open>The HTTP helpers\<close>

text \<open>\<^verbatim>\<open>doReq\<close>: the request is sent (and logged); any status other than 200 is an error.\<close>

definition doReq :: "env \<Rightarrow> string \<Rightarrow> (string \<times> error option) io" where
  "doReq E url =
     (case client_Do E url of
        DoError m \<Rightarrow> (Return ([], Some (NetError m)), [url])
      | ReadAllError m \<Rightarrow> (Return ([], Some (NetError m)), [url])
      | Response status body \<Rightarrow>
          if 200 \<noteq> status then (Return ([], Some (Errorf body)), [url])
          else (Return (body, None), [url]))"

definition makeReq :: "env \<Rightarrow> string \<Rightarrow> (string \<times> error option) io" where
  "makeReq E url =
     (case NewRequest E url of
        Some m \<Rightarrow> io_return ([], Some (NetError m))
      | None \<Rightarrow>
          io_bind (doReq E url) (\<lambda>(resp, err).
            case err of
              Some e \<Rightarrow> io_return ([], Some e)
            | None \<Rightarrow> io_return (resp, err)))"

subsection \<open>Listings and identifier resolution\<close>

text \<open>
  \<^verbatim>\<open>Listings\<close>: the error of \<^verbatim>\<open>makeReq\<close> is assigned and then overwritten by the result of
  \<^verbatim>\<open>json.Unmarshal\<close> without having been read.
\<close>

definition Listings :: "env \<Rightarrow> (Listing option list \<times> error option) io" where
  "Listings E =
     io_bind (makeReq E (baseURL @ ''/listings'')) (\<lambda>(resp, err).
       case json_Unmarshal (decode_listingsMedia E) resp of
         Inl e \<Rightarrow> io_return ([], Some e)
       | Inr body \<Rightarrow> io_return (listingsMedia.Data body, None))"

text \<open>The scan of \<^verbatim>\<open>CoinID\<close>; reading \<^verbatim>\<open>l.Symbol\<close> through a nil pointer panics.\<close>

fun CoinID_scan :: "Listing option list \<Rightarrow> string \<Rightarrow> (int \<times> error option) outcome" where
  "CoinID_scan [] symbol = Return (0, Some (ErrorsNew ''coin not found''))"
| "CoinID_scan (None # ls) symbol = Panic NilDereference"
| "CoinID_scan (Some l # ls) symbol =
     (if Listing.Symbol l = symbol then Return (Listing.ID l, None) else CoinID_scan ls symbol)"

definition normalize :: "env \<Rightarrow> string \<Rightarrow> string" where
  "normalize E symbol =
     ToUpper (unicode_ToUpper E) (TrimSpace (unicode_TrimFunc E) (unicode_TrimRightFunc E) symbol)"

definition CoinID :: "env \<Rightarrow> string \<Rightarrow> (int \<times> error option) io" where
  "CoinID E symbol0 =
     (let symbol = normalize E symbol0 in
      io_bind (Listings E) (\<lambda>(listings, err).
        case err of
          Some e \<Rightarrow> io_return (0, Some e)
        | None \<Rightarrow> (CoinID_scan listings symbol, [])))"

subsection \<open>Single ticker, slug and price\<close>

definition Ticker :: "env \<Rightarrow> TickerOptions option \<Rightarrow> (Ticker option \<times> error option) io" where
  "Ticker E options =
     (case options of
        None \<Rightarrow> io_panic NilDereference
      | Some opts \<Rightarrow>
          (let params = (if TickerOptions.Convert opts \<noteq> []
                         then [''convert='' @ TickerOptions.Convert opts] else [])
           in io_bind (CoinID E (TickerOptions.Symbol opts)) (\<lambda>(id, err).
                case err of
                  Some e \<Rightarrow> io_return (None, Some e)
                | None \<Rightarrow>
                    (let url = baseURL @ ''/ticker/'' @ Itoa id @ ''?'' @ Join params ''&''
                     in io_bind (makeReq E url) (\<lambda>(resp, err).
                          case err of
                            Some e \<Rightarrow> io_return (None, Some e)
                          | None \<Rightarrow>
                              (case json_Unmarshal (decode_tickerMedia E) resp of
                                 Inl e \<Rightarrow> io_return (None, Some e)
                               | Inr body \<Rightarrow> io_return (tickerMedia.Data body, None)))))))"

definition CoinSlug :: "env \<Rightarrow> string \<Rightarrow> (string \<times> error option) io" where
  "CoinSlug E symbol0 =
     (let symbol = normalize E symbol0 in
      io_bind (Ticker E (Some \<lparr>TickerOptions.Symbol = symbol, TickerOptions.Convert = []\<rparr>))
        (\<lambda>(coin, err).
          case err of
            Some e \<Rightarrow> io_return ([], Some e)
          | None \<Rightarrow>
              (case coin of
                 None \<Rightarrow> io_return ([], Some (ErrorsNew ''coin not found''))
               | Some c \<Rightarrow> io_return (Ticker.Slug c, None))))"

definition Price :: "env \<Rightarrow> PriceOptions option \<Rightarrow> (real \<times> error option) io" where
  "Price E options =
     (case options of
        None \<Rightarrow> io_panic NilDereference
      | Some opts \<Rightarrow>
          io_bind (Ticker E (Some \<lparr>TickerOptions.Symbol = PriceOptions.Symbol opts,
                                   TickerOptions.Convert = PriceOptions.Convert opts\<rparr>))
            (\<lambda>(coin, err).
              case err of
                Some e \<Rightarrow> io_return (0, Some e)
              | None \<Rightarrow>
                  (case coin of
                     None \<Rightarrow> io_return (0, Some (ErrorsNew ''coin not found''))
                   | Some c \<Rightarrow>
                       (case map_of (Ticker.Quotes c) (PriceOptions.Convert opts) of
                          None \<Rightarrow> io_panic NilDereference
                        | Some q \<Rightarrow> io_return (TickerQuote.Price q, None)))))"

subsection \<open>Tickers\<close>

text \<open>
  \<^verbatim>\<open>sort.Slice(tickers, less)\<close>.  The library sorts a short slice by insertion: element
  \<open>i\<close> is swapped to the left as long as the comparison puts it before its left neighbour.
  \<open>sift\<close> is that inner loop, on the part already sorted, held nearest element first;
  the comparison can panic, and so can the sort.
\<close>

fun sift :: "('a \<Rightarrow> 'a \<Rightarrow> bool outcome) \<Rightarrow> 'a \<Rightarrow> 'a list \<Rightarrow> 'a list outcome" where
  "sift less_fn x [] = Return [x]"
| "sift less_fn x (y # ys) =
     (case less_fn x y of
        Panic p \<Rightarrow> Panic p
      | Return True \<Rightarrow> (case sift less_fn x ys of Panic p \<Rightarrow> Panic p | Return zs \<Rightarrow> Return (y # zs))
      | Return False \<Rightarrow> Return (x # y # ys))"

fun insertionSort :: "('a \<Rightarrow> 'a \<Rightarrow> bool outcome) \<Rightarrow> 'a list \<Rightarrow> 'a list \<Rightarrow> 'a list outcome" where
  "insertionSort less_fn front [] = Return (rev front)"
| "insertionSort less_fn front (x # xs) =
     (case sift less_fn x front of Panic p \<Rightarrow> Panic p | Return front' \<Rightarrow> insertionSort less_fn front' xs)"

definition sort_Slice :: "('a \<Rightarrow> 'a \<Rightarrow> bool outcome) \<Rightarrow> 'a list \<Rightarrow> 'a list outcome" where
  "sort_Slice less_fn xs = insertionSort less_fn [] xs"

text \<open>The comparison that \<^verbatim>\<open>Tickers\<close> passes: it reads \<^verbatim>\<open>Rank\<close> through both pointers.\<close>

fun less_Rank :: "Ticker option \<Rightarrow> Ticker option \<Rightarrow> bool outcome" where
  "less_Rank None b = Panic NilDereference"
| "less_Rank (Some x) None = Panic NilDereference"
| "less_Rank (Some x) (Some y) = Return (Ticker.Rank x < Ticker.Rank y)"

definition Tickers_url :: "TickersOptions \<Rightarrow> string" where
  "Tickers_url opts =
     (let params =
            (if TickersOptions.Start opts \<ge> 0 then [''start='' @ Itoa (TickersOptions.Start opts)] else [])
          @ (if TickersOptions.Limit opts \<ge> 0 then [''limit='' @ Itoa (TickersOptions.Limit opts)] else [])
          @ (if TickersOptions.Convert opts \<noteq> [] then [''convert='' @ TickersOptions.Convert opts] else [])
          @ (if TickersOptions.Sort opts \<noteq> [] then [''sort='' @ TickersOptions.Sort opts] else [])
      in baseURL @ ''/ticker?'' @ Join params ''&'')"

definition Tickers :: "env \<Rightarrow> TickersOptions option \<Rightarrow> (Ticker option list \<times> error option) io" where
  "Tickers E options =
     (case options of
        None \<Rightarrow> io_panic NilDereference
      | Some opts \<Rightarrow>
          io_bind (makeReq E (Tickers_url opts)) (\<lambda>(resp, err).
            case json_Unmarshal (decode_tickersMedia E) resp of
              Inl e \<Rightarrow> io_return ([], Some e)
            | Inr body \<Rightarrow>
                (let tickers = map snd (tickersMedia.Data body)
                 in if Metadata_Error body \<noteq> []
                    then io_return ([], Some (ErrorsNew (Metadata_Error body)))
                    else (case sort_Slice less_Rank tickers of
                            Panic p \<Rightarrow> io_panic p
                          | Return sorted_tickers \<Rightarrow> io_return (sorted_tickers, None)))))"

subsection \<open>Coercion of table cells\<close>

definition toInt :: "env \<Rightarrow> string \<Rightarrow> int" where
  "toInt E rawInt = fst (Atoi E (Replace (Replace rawInt ''$'' []) '','' []))"

definition toFloat :: "env \<Rightarrow> string \<Rightarrow> real" where
  "toFloat E rawFloat =
     fst (ParseFloat E (Replace (Replace (Replace rawFloat ''$'' []) '','' []) ''%'' []))"

definition toDate :: "env \<Rightarrow> string \<Rightarrow> Time" where
  "toDate E rawTime = fst (time_Parse E ''2006-01-02'' rawTime)"

subsection \<open>The market table\<close>

text \<open>\<^verbatim>\<open>data[i]\<close>: an index outside the slice panics.\<close>

definition index :: "'a list \<Rightarrow> nat \<Rightarrow> 'a outcome" where
  "index xs i = (if i < length xs then Return (xs ! i) else Panic IndexOutOfRange)"

definition and_then :: "'a outcome \<Rightarrow> ('a \<Rightarrow> 'b outcome) \<Rightarrow> 'b outcome" where
  "and_then m f = (case m of Panic p \<Rightarrow> Panic p | Return v \<Rightarrow> f v)"

text \<open>The loop over the cells of a row: \<open>ci\<close> counts them, \<open>data\<close> collects their values.\<close>

fun Markets_columns :: "td list \<Rightarrow> nat \<Rightarrow> string list \<Rightarrow> string \<Rightarrow> string list \<times> string" where
  "Markets_columns [] ci data exchangeSlug = (data, exchangeSlug)"
| "Markets_columns (column # columns) ci data exchangeSlug =
     (let data' = data @ [case data_sort column of
                            None \<Rightarrow> text_of column
                          | Some v \<Rightarrow> if v \<noteq> [] then v else text_of column];
          exchangeSlug' =
            (if ci = 1
             then (case a_href column of
                     None \<Rightarrow> exchangeSlug
                   | Some link \<Rightarrow> last (Split link ''/''))
             else exchangeSlug)
      in Markets_columns columns (ci + 1) data' exchangeSlug')"

definition Markets_row :: "env \<Rightarrow> td list \<Rightarrow> Market outcome" where
  "Markets_row E row =
     (case Markets_columns row 0 [] [] of (data, exchangeSlug) \<Rightarrow>
        and_then (index data 0) (\<lambda>d0.
        and_then (index data 1) (\<lambda>d1.
        and_then (index data 2) (\<lambda>d2.
        and_then (index data 3) (\<lambda>d3.
        and_then (index data 4) (\<lambda>d4.
        and_then (index data 5) (\<lambda>d5.
        and_then (index data 6) (\<lambda>d6.
        and_then (index data 7) (\<lambda>d7.
        and_then (index data 8) (\<lambda>d8.
          Return \<lparr>Market.Rank = toInt E d0,
                  Market.Exchange = d1,
                  Market.ExchangeSlug = exchangeSlug,
                  Market.Pair = d2,
                  Market.VolumeUSD = toFloat E d3,
                  Market.Price = toFloat E d4,
                  Market.VolumePercent = toFloat E d5,
                  Market.Category = d6,
                  Market.FeeType = d7,
                  Market.Updated = d8\<rparr>))))))))))"

fun Markets_rows :: "env \<Rightarrow> td list list \<Rightarrow> Market list \<Rightarrow> Market list outcome" where
  "Markets_rows E [] markets = Return markets"
| "Markets_rows E (row # rows) markets =
     (case Markets_row E row of
        Panic p \<Rightarrow> Panic p
      | Return m \<Rightarrow> Markets_rows E rows (markets @ [m]))"

definition Markets :: "env \<Rightarrow> MarketsOptions option \<Rightarrow> (Market list \<times> error option) io" where
  "Markets E options =
     (case options of
        None \<Rightarrow> io_return ([], Some (ErrorsNew ''nil options''))
      | Some opts \<Rightarrow>
          if MarketsOptions.Slug opts = [] \<and> MarketsOptions.Symbol opts = []
          then io_return ([], Some (ErrorsNew ''empty slug and Symbol''))
          else
            io_bind (if MarketsOptions.Slug opts = []
                     then CoinSlug E (MarketsOptions.Symbol opts)
                     else io_return (MarketsOptions.Slug opts, None))
              (\<lambda>(slug, slug_err).
                case slug_err of
                  Some e \<Rightarrow> io_return ([], Some e)
                | None \<Rightarrow>
                    (let url = siteURL @ ''/currencies/'' @ slug @ ''/#markets''
                     in case soup_Get E url of
                          Inl m \<Rightarrow> (Return ([], Some (NetError m)), [url])
                        | Inr response \<Rightarrow>
                            (case Markets_rows E (markets_table E response) [] of
                               Panic p \<Rightarrow> (Panic p, [url])
                             | Return markets \<Rightarrow> (Return (markets, None), [url])))))"

subsection \<open>The exchange rankings\<close>

fun Exchanges_columns ::
  "td list \<Rightarrow> nat \<Rightarrow> string list \<Rightarrow> string \<Rightarrow> string \<Rightarrow> string list \<times> string \<times> string" where
  "Exchanges_columns [] tdi data exchangeSlug exchangeLogo = (data, exchangeSlug, exchangeLogo)"
| "Exchanges_columns (selection # selections) tdi data exchangeSlug exchangeLogo =
     (let data' = data @ [case data_sort selection of
                            Some val \<Rightarrow> val
                          | None \<Rightarrow> text_of selection];
          exchangeSlug' =
            (if tdi = 1
             then (case a_href selection of
                     None \<Rightarrow> exchangeSlug
                   | Some href \<Rightarrow> last (Split (TrimSuffix href ''/'') ''/''))
             else exchangeSlug);
          exchangeLogo' =
            (if tdi = 1
             then (case img_src selection of None \<Rightarrow> exchangeLogo | Some src \<Rightarrow> src)
             else exchangeLogo)
      in Exchanges_columns selections (tdi + 1) data' exchangeSlug' exchangeLogo')"

definition Exchanges_row :: "env \<Rightarrow> td list \<Rightarrow> Exchange outcome" where
  "Exchanges_row E tr =
     (case Exchanges_columns tr 0 [] [] [] of (data, exchangeSlug, exchangeLogo) \<Rightarrow>
        and_then (index data 0) (\<lambda>d0.
        and_then (index data 1) (\<lambda>d1.
        and_then (index data 2) (\<lambda>d2.
        and_then (index data 3) (\<lambda>d3.
        and_then (index data 4) (\<lambda>d4.
        and_then (index data 5) (\<lambda>d5.
        and_then (index data 6) (\<lambda>d6.
        and_then (index data 7) (\<lambda>d7.
        and_then (index data 9) (\<lambda>d9.
          Return \<lparr>Exchange.Rank = toInt E d0,
                  Exchange.Name = d1,
                  Exchange.Slug = exchangeSlug,
                  Exchange.LogoImg = exchangeLogo,
                  Exchange.AdjustVolume24h = toFloat E d2,
                  Exchange.Volume24h = toFloat E d3,
                  Exchange.Volume7d = toFloat E d4,
                  Exchange.Volume30d = toFloat E d5,
                  Exchange.MarketsNumber = toInt E d6,
                  Exchange.Change24h = toFloat E d7 / 100,
                  Exchange.LaunchedAt = toDate E d9\<rparr>))))))))))"

fun Exchanges_rows :: "env \<Rightarrow> td list list \<Rightarrow> Exchange list \<Rightarrow> Exchange list outcome" where
  "Exchanges_rows E [] exchanges = Return exchanges"
| "Exchanges_rows E (tr # trs) exchanges =
     (case Exchanges_row E tr of
        Panic p \<Rightarrow> Panic p
      | Return x \<Rightarrow> Exchanges_rows E trs (exchanges @ [x]))"

text \<open>The page number is a Go \<^verbatim>\<open>int\<close>, 64 bits wide, printed as a signed decimal.\<close>

definition ExchangesByPage :: "env \<Rightarrow> 64 word \<Rightarrow> (Exchange list \<times> error option) io" where
  "ExchangesByPage E page0 =
     (let page = (if page0 = 0 then 1 else page0);
          url = siteURL @ ''/rankings/exchanges/'' @ Itoa (sint page)
      in case goquery_NewDocument E url of
           Inl m \<Rightarrow> (Return ([], Some (NetError m)), [url])
         | Inr trElems \<Rightarrow>
             (case Exchanges_rows E trElems [] of
                Panic p \<Rightarrow> (Panic p, [url])
              | Return exchanges \<Rightarrow> (Return (exchanges, None), [url])))"

text \<open>
  The loop of \<^verbatim>\<open>Exchanges\<close>, \<^verbatim>\<open>for i := 1; i > 0; i++\<close>: the counter is a signed 64-bit
  integer, the comparison is signed and the increment wraps around.  The length of the page
  is tested before the error is.
\<close>

function Exchanges_loop :: "env \<Rightarrow> 64 word \<Rightarrow> Exchange list \<Rightarrow> (Exchange list \<times> error option) io" where
  "Exchanges_loop E i exchanges =
     (if 0 <s i
      then (case ExchangesByPage E i of
              (Panic p, reqs) \<Rightarrow> (Panic p, reqs)
            | (Return (pageExchanges, err), reqs) \<Rightarrow>
                if length pageExchanges = 0 then (Return (exchanges, None), reqs)
                else (case err of
                        Some e \<Rightarrow> (Return ([], Some (ErrorsNew (''Exchanges error: '' @ Error e))), reqs)
                      | None \<Rightarrow>
                          (case Exchanges_loop E (i + 1) (exchanges @ pageExchanges) of
                             (r, reqs') \<Rightarrow> (r, reqs @ reqs'))))
      else (Return (exchanges, None), []))"
  by pat_completeness auto
termination
proof (relation "measure (\<lambda>(E, i, exchanges). 2 ^ 63 - unat i)")
  show "wf (measure (\<lambda>(E :: env, i :: 64 word, exchanges :: Exchange list). 2 ^ 63 - unat i))"
    by simp
next
  fix E :: env and i :: "64 word" and exchanges pageExchanges :: "Exchange list"
  assume "0 <s i"
  then have pos: "0 < sint i" by (simp add: word_sless_alt)
  have b: "0 \<le> uint i" "uint i < 2 ^ 64" using uint_lt2p [of i] by simp_all
  have "sint i = (uint i + 2 ^ 63) mod 2 ^ 64 - 2 ^ 63"
    by (simp add: sint_uint signed_take_bit_eq_take_bit_shift take_bit_eq_mod)
  moreover have "(uint i + 2 ^ 63) mod 2 ^ 64 = uint i + 2 ^ 63 - 2 ^ 64" if "\<not> uint i < 2 ^ 63"
    using that b by (simp add: mod_pos_geq mod_pos_pos_trivial)
  ultimately have "uint i < 2 ^ 63" using pos b by (cases "uint i < 2 ^ 63") simp_all
  moreover have "int (unat i) = uint i" by simp
  ultimately have "int (unat i) < int (2 ^ 63)" by simp
  then have small: "unat i < 2 ^ 63" by (rule iffD1 [OF of_nat_less_iff])
  then have "unat (i + 1) = unat i + 1" by (simp add: unat_word_ariths)
  with small show "((E, i + 1, exchanges @ pageExchanges), (E, i, exchanges))
      \<in> measure (\<lambda>(E, i, exchanges). 2 ^ 63 - unat i)"
    by simp
qed

definition Exchanges :: "env \<Rightarrow> (Exchange list \<times> error option) io" where
  "Exchanges E = Exchanges_loop E 1 []"

declare Exchanges_loop.simps [simp del]

subsection \<open>Sample environments\<close>

text \<open>
  Concrete environments on which the package is run below.  In \<open>unreachable\<close> every
  request fails; the parsers of the library know a few texts only.  The others change
  what some URLs answer.
\<close>

definition unreachable :: env where
  "unreachable =
     \<lparr>NewRequest = (\<lambda>url. None),
      client_Do = (\<lambda>url. DoError ''connection refused''),
      soup_Get = (\<lambda>url. Inl ''connection refused''),
      markets_table = (\<lambda>page. []),
      goquery_NewDocument = (\<lambda>url. Inl ''connection refused''),
      decode_listingsMedia = (\<lambda>data. Inl ''invalid character''),
      decode_tickersMedia = (\<lambda>data. Inl ''invalid character''),
      decode_tickerMedia = (\<lambda>data. Inl ''invalid character''),
      unicode_ToUpper = (\<lambda>s. s),
      unicode_TrimFunc = (\<lambda>s. s),
      unicode_TrimRightFunc = (\<lambda>s. s),
      Atoi = (\<lambda>s. if s = ''1'' then (1, None)
                   else if s = ''2'' then (2, None)
                   else if s = ''385'' then (385, None)
                   else (0, Some ErrSyntax)),
      ParseFloat = (\<lambda>s. if s = ''1234.56'' then (123456 / 100, None)
                         else if s = ''12.3'' then (123 / 10, None)
                         else (0, Some ErrSyntax)),
      time_Parse = (\<lambda>layout v. if layout = ''2006-01-02'' \<and> v = ''2018-01-02''
                                then (Date 2018 1 2, None)
                                else (zeroTime, Some ''cannot parse''))\<rparr>"

definition cell :: "string \<Rightarrow> td" where
  "cell s = \<lparr>data_sort = None, text_of = s, a_href = None, img_src = None\<rparr>"

definition binance_row :: "td list" where
  "binance_row =
     [cell ''1'',
      \<lparr>data_sort = None, text_of = ''Binance'', a_href = Some ''/exchanges/binance/'',
       img_src = Some ''/static/img/exchanges/270.png''\<rparr>,
      \<lparr>data_sort = Some ''1234.56'', text_of = ''$1,234.56'', a_href = None, img_src = None\<rparr>,
      cell ''$1,234.56'', cell ''$1,234.56'', cell ''$1,234.56'', cell ''385'', cell ''12.3%'',
      cell '''', cell ''2018-01-02'']"

definition okex_row :: "td list" where
  "okex_row =
     [cell ''2'',
      \<lparr>data_sort = None, text_of = ''OKEx'', a_href = Some ''/exchanges/okex/'',
       img_src = None\<rparr>,
      cell ''$1,234.56'', cell ''$1,234.56'', cell ''$1,234.56'', cell ''$1,234.56'', cell ''385'',
      cell ''12.3%'', cell '''', cell ''bad'']"

definition binance :: Exchange where
  "binance =
     \<lparr>Exchange.Rank = 1, Exchange.Name = ''Binance'', Exchange.Slug = ''binance'',
      Exchange.LogoImg = ''/static/img/exchanges/270.png'',
      Exchange.AdjustVolume24h = 123456 / 100, Exchange.Volume24h = 123456 / 100,
      Exchange.Volume7d = 123456 / 100, Exchange.Volume30d = 123456 / 100,
      Exchange.MarketsNumber = 385, Exchange.Change24h = 123 / 1000,
      Exchange.LaunchedAt = Date 2018 1 2\<rparr>"

definition okex :: Exchange where
  "okex =
     \<lparr>Exchange.Rank = 2, Exchange.Name = ''OKEx'', Exchange.Slug = ''okex'',
      Exchange.LogoImg = [],
      Exchange.AdjustVolume24h = 123456 / 100, Exchange.Volume24h = 123456 / 100,
      Exchange.Volume7d = 123456 / 100, Exchange.Volume30d = 123456 / 100,
      Exchange.MarketsNumber = 385, Exchange.Change24h = 123 / 1000,
      Exchange.LaunchedAt = zeroTime\<rparr>"

text \<open>The first page of the rankings has one exchange and the second cannot be fetched.\<close>

definition page2_down :: env where
  "page2_down =
     unreachable\<lparr>goquery_NewDocument :=
       (\<lambda>url. if url = ''https://coinmarketcap.com/rankings/exchanges/1'' then Inr [binance_row]
              else Inl ''timeout'')\<rparr>"

text \<open>Two pages of one exchange each, and an empty third page.\<close>

definition three_pages :: env where
  "three_pages =
     unreachable\<lparr>goquery_NewDocument :=
       (\<lambda>url. if url = ''https://coinmarketcap.com/rankings/exchanges/1'' then Inr [binance_row]
              else if url = ''https://coinmarketcap.com/rankings/exchanges/2'' then Inr [okex_row]
              else if url = ''https://coinmarketcap.com/rankings/exchanges/3'' then Inr []
              else Inl ''timeout'')\<rparr>"

text \<open>A market page whose only row has three cells.\<close>

definition short_row_page :: env where
  "short_row_page =
     unreachable\<lparr>soup_Get := (\<lambda>url. Inr ''<html>''),
                 markets_table := (\<lambda>page. [[cell ''1'', cell ''Binance'', cell ''BTC/USDT'']])\<rparr>"

text \<open>Every request of the API is answered with status 500.\<close>

definition status_500 :: env where
  "status_500 = unreachable\<lparr>client_Do := (\<lambda>url. Response 500 ''Internal Server Error'')\<rparr>"

definition eth :: Ticker where
  "eth = \<lparr>Ticker.ID = 1027, Ticker.Name = ''Ethereum'', Ticker.Symbol = ''ETH'',
          Ticker.Slug = ''ethereum'', Ticker.Rank = 2,
          Ticker.Quotes = [(''USD'', \<lparr>TickerQuote.Price = 68718 / 100, Volume24H = 0, MarketCap = 0\<rparr>)]\<rparr>"

definition btc :: Ticker where
  "btc = \<lparr>Ticker.ID = 1, Ticker.Name = ''Bitcoin'', Ticker.Symbol = ''BTC'',
          Ticker.Slug = ''bitcoin'', Ticker.Rank = 1,
          Ticker.Quotes = [(''USD'', \<lparr>TickerQuote.Price = 9024, Volume24H = 0, MarketCap = 0\<rparr>)]\<rparr>"

text \<open>A decoded answer of the ticker endpoint: two tickers, in the order ETH, BTC.\<close>

definition tickers_answer :: "string \<Rightarrow> tickersMedia" where
  "tickers_answer message =
     \<lparr>tickersMedia.Data = [(''ETH'', Some eth), (''BTC'', Some btc)],
      Metadata_Timestamp = 1525137187,
      Metadata_NumCryptoCurrencies = 2,
      Metadata_Error = message\<rparr>"

definition two_tickers :: env where
  "two_tickers =
     unreachable\<lparr>client_Do := (\<lambda>url. Response 200 ''{..}''),
                 decode_tickersMedia := (\<lambda>data. Inr (tickers_answer []))\<rparr>"

text \<open>The same answer, with an error message in the metadata.\<close>

definition tickers_with_error :: env where
  "tickers_with_error =
     unreachable\<lparr>client_Do := (\<lambda>url. Response 200 ''{..}''),
                 decode_tickersMedia := (\<lambda>data. Inr (tickers_answer ''sort is invalid''))\<rparr>"

text \<open>The listings endpoint answers with Ethereum alone.\<close>

definition only_eth_listed :: env where
  "only_eth_listed =
     unreachable\<lparr>client_Do := (\<lambda>url. Response 200 ''{..}''),
                 decode_listingsMedia :=
                   (\<lambda>data. Inr \<lparr>listingsMedia.Data =
                      [Some \<lparr>Listing.ID = 1027, Listing.Name = ''Ethereum'',
                             Listing.Symbol = ''ETH'', Listing.Slug = ''ethereum''\<rparr>]\<rparr>)\<rparr>"

subsection \<open>The order of tickers\<close>

text \<open>Both pointers are set and the first ticker has the smaller or the same rank.\<close>

definition ranked_before :: "Ticker option \<Rightarrow> Ticker option \<Rightarrow> bool" where
  "ranked_before a b =
     (case a of
        None \<Rightarrow> False
      | Some x \<Rightarrow> (case b of None \<Rightarrow> False | Some y \<Rightarrow> Ticker.Rank x \<le> Ticker.Rank y))"

section \<open>Properties\<close>

subsection \<open>Helper facts about runs\<close>

lemma io_bind_Return_fst:
  "fst (io_bind m f) = Return v \<Longrightarrow> \<exists>a. fst m = Return a \<and> fst (f a) = Return v"
  by (cases m) (auto simp: io_bind_def split: outcome.splits prod.splits)

subsection \<open>Markets: the options are checked before anything is requested\<close>

text \<open>
  C8.  When both \<open>Symbol\<close> and \<open>Slug\<close> of the options are empty, \<open>Markets\<close> returns the
  error \<^verbatim>\<open>errors.New("empty slug and Symbol")\<close> with no markets, and the list of
  requested URLs is empty: nothing was sent, whatever the environment.
\<close>

theorem Markets_empty_options:
  "Markets E (Some \<lparr>MarketsOptions.Symbol = [], MarketsOptions.Slug = []\<rparr>)
     = (Return ([], Some (ErrorsNew ''empty slug and Symbol'')), [])"
  by (simp add: Markets_def io_return_def)

subsection \<open>Price: an error comes with the price zero\<close>

text \<open>
  C10.  Whenever \<open>Price\<close> returns an error, the price it returns with it is 0; so a price
  other than 0 is only returned with the nil error.  This holds for every environment and
  every option value (a nil option value panics and returns nothing).
\<close>

theorem Price_error_zero:
  "fst (Price E options) = Return (p, Some e) \<Longrightarrow> p = 0"
  by (auto simp: Price_def io_panic_def io_return_def dest!: io_bind_Return_fst
      split: option.splits sum.splits prod.splits)

theorem Price_error_zero_witness:
  "fst (Price unreachable (Some \<lparr>PriceOptions.Symbol = ''btc'', PriceOptions.Convert = ''USD''\<rparr>))
     = Return (0, Some (SyntaxError ''unexpected end of JSON input''))"
proof -
  have h: "fst (Price unreachable (Some \<lparr>PriceOptions.Symbol = ''btc'', PriceOptions.Convert = ''USD''\<rparr>))
             = Return (0, Some (SyntaxError ''unexpected end of JSON input''))"
    by code_simp
  from Price_error_zero [OF h] h show ?thesis by simp
qed

subsection \<open>Listings: what happens to the error of the request\<close>

lemma makeReq_error_nil: "fst (makeReq E url) = Return (resp, Some e) \<Longrightarrow> resp = []"
  by (auto simp: makeReq_def doReq_def io_bind_def io_return_def
      split: option.splits do_outcome.splits if_splits)

lemma makeReq_error_kind:
  "fst (makeReq E url) = Return (resp, Some e) \<Longrightarrow> (\<exists>m. e = NetError m) \<or> (\<exists>m. e = Errorf m)"
  by (auto simp: makeReq_def doReq_def io_bind_def io_return_def
      split: option.splits do_outcome.splits if_splits)

text \<open>
  Whatever error the request ends with, \<open>Listings\<close> returns the error of the JSON decoder
  on empty input instead.
\<close>

lemma Listings_after_failed_request:
  assumes "fst (makeReq E (baseURL @ ''/listings'')) = Return (resp, Some e)"
  shows "fst (Listings E) = Return ([], Some (SyntaxError ''unexpected end of JSON input''))"
proof -
  from assms have "resp = []" by (rule makeReq_error_nil)
  with assms show ?thesis
    by (cases "makeReq E (baseURL @ ''/listings'')")
       (simp add: Listings_def io_bind_def io_return_def json_Unmarshal_def)
qed

lemma Listings_error_is_SyntaxError:
  "fst (Listings E) = Return (ls, Some e) \<Longrightarrow> \<exists>m. e = SyntaxError m"
  by (auto simp: Listings_def io_return_def json_Unmarshal_def dest!: io_bind_Return_fst
      split: sum.splits if_splits prod.splits)

text \<open>
  C4.  The claim is that a failed GET of the listings endpoint makes \<open>Listings\<close> fail with
  the error of the transport, which for a status other than 2xx carries the response body.
  On the environment \<open>status_500\<close> the request helper does return that error,
  \<open>Errorf ''Internal Server Error''\<close>, but \<open>Listings\<close> returns the decoder's error
  \<open>unexpected end of JSON input\<close>: the error of the request is overwritten before it is
  tested.
\<close>

theorem Listings_loses_transport_error:
  "makeReq status_500 (baseURL @ ''/listings'')
     = (Return ([], Some (Errorf ''Internal Server Error'')),
        [''https://api.coinmarketcap.com/v2/listings''])
   \<and> Listings status_500
     = (Return ([], Some (SyntaxError ''unexpected end of JSON input'')),
        [''https://api.coinmarketcap.com/v2/listings''])"
  by code_simp

subsection \<open>Exchanges: a page that cannot be fetched\<close>

lemma ExchangesByPage_error_nil:
  "ExchangesByPage E i = (Return (xs, Some e), reqs) \<Longrightarrow> xs = []"
  by (auto simp: ExchangesByPage_def Let_def split: sum.splits outcome.splits)

text \<open>
  No run of the loop returns an error: a page that comes with an error comes with no rows,
  and the test for no rows is made first and leaves the loop.
\<close>

lemma Exchanges_loop_no_error:
  "fst (Exchanges_loop E i acc) = Return (xs, e) \<Longrightarrow> e = None"
proof (induction E i acc arbitrary: xs e rule: Exchanges_loop.induct)
  case (1 E i exchanges)
  show ?case
  proof (cases "0 <s i")
    case False
    with "1.prems" show ?thesis by (simp add: Exchanges_loop.simps [of E i exchanges])
  next
    case True
    obtain r reqs where page: "ExchangesByPage E i = (r, reqs)" by (cases "ExchangesByPage E i")
    show ?thesis
    proof (cases r)
      case (Panic p)
      with "1.prems" True page show ?thesis by (simp add: Exchanges_loop.simps [of E i exchanges])
    next
      case (Return v)
      obtain pageExchanges err where v: "v = (pageExchanges, err)" by (cases v)
      show ?thesis
      proof (cases "length pageExchanges = 0")
        case True
        with "1.prems" \<open>0 <s i\<close> page Return v show ?thesis
          by (simp add: Exchanges_loop.simps [of E i exchanges])
      next
        case False
        then have ne: "pageExchanges \<noteq> []" by simp
        have err: "err = None"
        proof (cases err)
          case (Some e')
          with page Return v have "pageExchanges = []" by (auto dest: ExchangesByPage_error_nil)
          with ne show ?thesis by simp
        qed simp
        from "1.prems" \<open>0 <s i\<close> page Return v False err
        have "fst (Exchanges_loop E (i + 1) (exchanges @ pageExchanges)) = Return (xs, e)"
          by (simp add: Exchanges_loop.simps [of E i exchanges] split: prod.splits)
        with "1.IH" [OF \<open>0 <s i\<close> page [symmetric] Return v [symmetric] False err] show ?thesis
          by blast
      qed
    qed
  qed
qed

lemma Exchanges_no_error: "fst (Exchanges E) = Return (xs, e) \<Longrightarrow> e = None"
  unfolding Exchanges_def by (rule Exchanges_loop_no_error)

text \<open>
  C1.  The claim is that a failed page fetch aborts \<open>Exchanges\<close> with the error
  \<^verbatim>\<open>"Exchanges error: " + err.Error()\<close>.  On the environment \<open>page2_down\<close> the fetch of
  page 2 fails with \<open>NetError ''timeout''\<close>, and \<open>Exchanges\<close> returns the exchange of
  page 1 with the nil error.
\<close>

theorem Exchanges_swallows_page_error:
  "fst (ExchangesByPage page2_down 2) = Return ([], Some (NetError ''timeout''))
   \<and> Exchanges page2_down
     = (Return ([binance], None),
        [''https://coinmarketcap.com/rankings/exchanges/1'',
         ''https://coinmarketcap.com/rankings/exchanges/2''])"
  by code_simp

subsection \<open>Markets: a row with too few cells\<close>

lemma Markets_columns_length:
  "length (fst (Markets_columns row ci data slug)) = length data + length row"
  by (induction row arbitrary: ci data slug) (simp_all add: Let_def)

lemma and_then_index:
  "and_then (index xs i) f = (if i < length xs then f (xs ! i) else Panic IndexOutOfRange)"
  by (simp add: and_then_def index_def)

lemma Markets_row_short:
  assumes "length row < 9"
  shows "Markets_row E row = Panic IndexOutOfRange"
proof -
  obtain data slug where c: "Markets_columns row 0 [] [] = (data, slug)"
    by (cases "Markets_columns row 0 [] []")
  from Markets_columns_length [of row 0 "[]" "[]"] c have "length data = length row" by simp
  with assms have "\<not> 8 < length data" by simp
  then show ?thesis
    by (simp add: Markets_row_def c and_then_index)
qed

lemma Markets_row_panic: "Markets_row E row = Panic p \<Longrightarrow> p = IndexOutOfRange"
  by (cases "Markets_columns row 0 [] []")
     (simp add: Markets_row_def and_then_index split: if_splits)

lemma Markets_rows_short:
  "list_ex (\<lambda>row. length row < 9) rows \<Longrightarrow> Markets_rows E rows markets = Panic IndexOutOfRange"
proof (induction rows arbitrary: markets)
  case Nil
  then show ?case by simp
next
  case (Cons row rows)
  show ?case
  proof (cases "Markets_row E row")
    case (Panic p)
    then show ?thesis using Markets_row_panic [OF Panic] by simp
  next
    case (Return m)
    then have "\<not> length row < 9" using Markets_row_short [of row E] by auto
    with Cons.prems have "list_ex (\<lambda>row. length row < 9) rows" by simp
    then show ?thesis using Return Cons.IH by simp
  qed
qed

text \<open>
  With a slug given and the page fetched, one row of fewer than nine cells anywhere in the
  table makes \<open>Markets\<close> panic on the index.
\<close>

lemma Markets_panics_on_short_row:
  assumes "slug \<noteq> []"
      and "soup_Get E (siteURL @ ''/currencies/'' @ slug @ ''/#markets'') = Inr page"
      and "list_ex (\<lambda>row. length row < 9) (markets_table E page)"
  shows "Markets E (Some \<lparr>MarketsOptions.Symbol = symbol, MarketsOptions.Slug = slug\<rparr>)
           = (Panic IndexOutOfRange, [siteURL @ ''/currencies/'' @ slug @ ''/#markets''])"
  using assms
  by (simp add: Markets_def io_bind_def io_return_def Let_def Markets_rows_short)

text \<open>
  C3.  The claim is that \<open>Markets\<close> fails with a decoding error when a row of the table has
  fewer than nine cells.  On the environment \<open>short_row_page\<close>, whose table has one row
  of three cells, \<open>Markets\<close> returns no error: it panics, reading \<^verbatim>\<open>data[3]\<close>.
\<close>

theorem Markets_short_row_panic:
  "Markets short_row_page (Some \<lparr>MarketsOptions.Symbol = [], MarketsOptions.Slug = ''bitcoin''\<rparr>)
     = (Panic IndexOutOfRange, [''https://coinmarketcap.com/currencies/bitcoin/#markets''])"
  by code_simp

subsection \<open>Tickers: the result is sorted by rank\<close>

text \<open>The inner loop keeps the elements it is given.\<close>

lemma sift_set: "sift f x front = Return zs \<Longrightarrow> set zs = insert x (set front)"
proof (induction front arbitrary: zs)
  case Nil
  then show ?case by auto
next
  case (Cons y ys)
  show ?case
  proof (cases "f x y")
    case (Panic p)
    with Cons.prems show ?thesis by simp
  next
    case (Return b)
    show ?thesis
    proof (cases b)
      case False
      with Cons.prems Return show ?thesis by auto
    next
      case True
      with Cons.prems Return obtain zs' where s: "sift f x ys = Return zs'" and zs: "zs = y # zs'"
        by (cases "sift f x ys") auto
      from Cons.IH [OF s] zs show ?thesis by auto
    qed
  qed
qed

lemma less_Rank_Return:
  "less_Rank a b = Return r \<Longrightarrow> \<exists>x y. a = Some x \<and> b = Some y \<and> r = (Ticker.Rank x < Ticker.Rank y)"
  by (cases a; cases b) auto

lemma ranked_before_trans: "ranked_before a b \<Longrightarrow> ranked_before b c \<Longrightarrow> ranked_before a c"
  by (auto simp: ranked_before_def split: option.splits)

lemma sift_sorted:
  "sift less_Rank x front = Return zs \<Longrightarrow> front \<noteq> [] \<Longrightarrow>
   sorted_wrt (\<lambda>a b. ranked_before b a) front \<Longrightarrow> sorted_wrt (\<lambda>a b. ranked_before b a) zs"
proof (induction front arbitrary: zs)
  case Nil
  then show ?case by simp
next
  case (Cons y ys)
  from Cons.prems(1) obtain r where r: "less_Rank x y = Return r"
    by (cases "less_Rank x y") auto
  then obtain a b where ab: "x = Some a" "y = Some b" "r = (Ticker.Rank a < Ticker.Rank b)"
    by (auto dest: less_Rank_Return)
  show ?case
  proof (cases r)
    case False
    with Cons.prems(1) r have zs: "zs = x # y # ys" by simp
    from False ab have yx: "ranked_before y x" by (simp add: ranked_before_def)
    have "\<forall>z\<in>set ys. ranked_before z x"
    proof
      fix z assume "z \<in> set ys"
      with Cons.prems(3) have "ranked_before z y" by simp
      then show "ranked_before z x" using yx by (rule ranked_before_trans)
    qed
    with yx Cons.prems(3) show ?thesis by (simp add: zs)
  next
    case True
    with Cons.prems(1) r obtain zs' where s: "sift less_Rank x ys = Return zs'" and zs: "zs = y # zs'"
      by (cases "sift less_Rank x ys") auto
    from True ab have xy: "ranked_before x y" by (simp add: ranked_before_def)
    have tail: "sorted_wrt (\<lambda>a b. ranked_before b a) zs'"
    proof (cases "ys = []")
      case True
      with s show ?thesis by auto
    next
      case False
      with Cons.IH [OF s] Cons.prems(3) show ?thesis by simp
    qed
    have "set zs' = insert x (set ys)" using s by (rule sift_set)
    with xy Cons.prems(3) tail show ?thesis by (auto simp: zs)
  qed
qed

lemma insertionSort_sorted:
  "insertionSort less_Rank front xs = Return r \<Longrightarrow>
   sorted_wrt (\<lambda>a b. ranked_before b a) front \<Longrightarrow> sorted_wrt ranked_before r"
proof (induction xs arbitrary: front r)
  case Nil
  then show ?case by (auto simp: sorted_wrt_rev)
next
  case (Cons x xs)
  from Cons.prems(1) obtain front' where s: "sift less_Rank x front = Return front'"
    and rest: "insertionSort less_Rank front' xs = Return r"
    by (cases "sift less_Rank x front") auto
  have "sorted_wrt (\<lambda>a b. ranked_before b a) front'"
  proof (cases "front = []")
    case True
    with s show ?thesis by auto
  next
    case False
    show ?thesis using s False Cons.prems(2) by (rule sift_sorted)
  qed
  with Cons.IH [OF rest] show ?case .
qed

lemma Tickers_Return_sorted:
  assumes "fst (Tickers E options) = Return (ts, None)"
  shows "\<exists>xs. sort_Slice less_Rank xs = Return ts"
proof -
  from assms obtain opts where o: "options = Some opts"
    by (cases options) (simp_all add: Tickers_def io_panic_def)
  from assms obtain resp err where
    g: "fst (case json_Unmarshal (decode_tickersMedia E) resp of
              Inl e \<Rightarrow> io_return ([], Some e)
            | Inr body \<Rightarrow>
                (let tickers = map snd (tickersMedia.Data body)
                 in if Metadata_Error body \<noteq> []
                    then io_return ([], Some (ErrorsNew (Metadata_Error body)))
                    else (case sort_Slice less_Rank tickers of
                            Panic p \<Rightarrow> io_panic p
                          | Return sorted_tickers \<Rightarrow> io_return (sorted_tickers, None)))) = Return (ts, None)"
    unfolding o Tickers_def by (auto dest!: io_bind_Return_fst)
  show ?thesis
  proof (cases "json_Unmarshal (decode_tickersMedia E) resp")
    case (Inl e)
    with g show ?thesis by (simp add: io_return_def)
  next
    case (Inr body)
    show ?thesis
    proof (cases "Metadata_Error body \<noteq> []")
      case True
      with g Inr show ?thesis by (simp add: io_return_def)
    next
      case False
      with g Inr show ?thesis
        by (cases "sort_Slice less_Rank (map snd (tickersMedia.Data body))")
           (auto simp: io_return_def io_panic_def)
    qed
  qed
qed

lemma Tickers_sorted_wrt:
  assumes "fst (Tickers E options) = Return (ts, None)"
  shows "sorted_wrt ranked_before ts"
proof -
  from assms obtain xs where "sort_Slice less_Rank xs = Return ts"
    by (auto dest: Tickers_Return_sorted)
  then have "insertionSort less_Rank [] xs = Return ts" by (simp add: sort_Slice_def)
  then show ?thesis by (rule insertionSort_sorted) simp
qed

text \<open>
  C5.  When \<open>Tickers\<close> returns a list with the nil error, any two positions \<open>i < j\<close>
  of the list hold tickers whose ranks are in ascending order: \<open>Rank (ts ! i) \<le> Rank (ts ! j)\<close>.
  (A list with two or more entries holds no nil pointer, since sorting it would have
  panicked.)
\<close>

theorem Tickers_sorted_by_rank:
  assumes "fst (Tickers E options) = Return (ts, None)" and "i < j" and "j < length ts"
  shows "\<exists>a b. ts ! i = Some a \<and> ts ! j = Some b \<and> Ticker.Rank a \<le> Ticker.Rank b"
proof -
  have "sorted_wrt ranked_before ts" using assms(1) by (rule Tickers_sorted_wrt)
  with assms(2,3) have "ranked_before (ts ! i) (ts ! j)" by (simp add: sorted_wrt_nth_less)
  then show ?thesis by (auto simp: ranked_before_def split: option.splits)
qed

text \<open>The answer lists ETH (rank 2) before BTC (rank 1); the result has BTC first.\<close>

theorem Tickers_sorted_by_rank_witness:
  "fst (Tickers two_tickers (Some \<lparr>Start = 0, Limit = 10, Convert = ''USD'', Sort = []\<rparr>))
     = Return ([Some btc, Some eth], None)
   \<and> (\<exists>a b. [Some btc, Some eth] ! 0 = Some a \<and> [Some btc, Some eth] ! 1 = Some b
          \<and> Ticker.Rank a \<le> Ticker.Rank b)"
proof -
  have h: "fst (Tickers two_tickers (Some \<lparr>Start = 0, Limit = 10, Convert = ''USD'', Sort = []\<rparr>))
             = Return ([Some btc, Some eth], None)"
    by code_simp
  have "(0::nat) < 1" and "1 < length [Some btc, Some eth]" by simp_all
  from Tickers_sorted_by_rank [OF h this] h show ?thesis by simp
qed

subsection \<open>Tickers: the error message of the metadata\<close>

text \<open>
  C6.  Take a response that the decoder accepts, with body \<open>body\<close>.  If the error field
  of its metadata is not empty, \<open>Tickers\<close> returns \<^verbatim>\<open>errors.New\<close> of that message and no
  tickers, whatever \<open>Data\<close> holds; and if \<open>Tickers\<close> returns with the nil error, the
  error field is empty.
\<close>

theorem Tickers_upstream_error:
  assumes "fst (makeReq E (Tickers_url opts)) = Return (resp, err)"
      and "json_Unmarshal (decode_tickersMedia E) resp = Inr body"
  shows "(Metadata_Error body \<noteq> [] \<longrightarrow>
            fst (Tickers E (Some opts)) = Return ([], Some (ErrorsNew (Metadata_Error body))))
       \<and> (\<forall>ts. fst (Tickers E (Some opts)) = Return (ts, None) \<longrightarrow> Metadata_Error body = [])"
  using assms
  by (cases "makeReq E (Tickers_url opts)")
     (auto simp: Tickers_def io_bind_def io_return_def io_panic_def Let_def split: outcome.splits)

theorem Tickers_upstream_error_witness:
  "fst (Tickers tickers_with_error (Some \<lparr>Start = 0, Limit = 10, Convert = ''USD'', Sort = []\<rparr>))
     = Return ([], Some (ErrorsNew ''sort is invalid''))
   \<and> fst (Tickers two_tickers (Some \<lparr>Start = 0, Limit = 10, Convert = ''USD'', Sort = []\<rparr>))
     = Return ([Some btc, Some eth], None)
   \<and> Metadata_Error (tickers_answer []) = []"
proof -
  let ?opts = "\<lparr>Start = 0, Limit = 10, Convert = ''USD'', Sort = []\<rparr>"
  have r1: "fst (makeReq tickers_with_error (Tickers_url ?opts)) = Return (''{..}'', None)"
    by code_simp
  have d1: "json_Unmarshal (decode_tickersMedia tickers_with_error) ''{..}''
              = Inr (tickers_answer ''sort is invalid'')"
    by code_simp
  have n1: "Metadata_Error (tickers_answer ''sort is invalid'') \<noteq> []"
    by code_simp
  have r2: "fst (makeReq two_tickers (Tickers_url ?opts)) = Return (''{..}'', None)"
    by code_simp
  have d2: "json_Unmarshal (decode_tickersMedia two_tickers) ''{..}'' = Inr (tickers_answer [])"
    by code_simp
  have s2: "fst (Tickers two_tickers (Some ?opts)) = Return ([Some btc, Some eth], None)"
    by code_simp
  from Tickers_upstream_error [OF r1 d1] n1
  have "fst (Tickers tickers_with_error (Some ?opts))
          = Return ([], Some (ErrorsNew (Metadata_Error (tickers_answer ''sort is invalid''))))"
    by blast
  moreover have "Metadata_Error (tickers_answer ''sort is invalid'') = ''sort is invalid''"
    by code_simp
  moreover from Tickers_upstream_error [OF r2 d2] s2
  have "Metadata_Error (tickers_answer []) = []"
    by blast
  ultimately show ?thesis using s2 by simp
qed

subsection \<open>Exchanges: the pages up to the first one without rows\<close>

text \<open>A page number between 1 and \<open>2\<^sup>6\<^sup>3 - 1\<close> is positive as a signed 64-bit integer.\<close>

lemma page_number_positive:
  assumes "0 < m" and "m < 2 ^ 63"
  shows "0 <s (of_nat m :: 64 word)"
proof -
  have "sint (of_nat m :: 64 word) = signed_take_bit 63 (int m)"
    by (simp add: signed_of_nat)
  also have "\<dots> = int m"
  proof -
    have "int m < 2 ^ 63" using assms(2) by (metis of_nat_less_iff of_nat_numeral of_nat_power)
    then show ?thesis
      by (simp add: signed_take_bit_int_eq_self)
  qed
  finally show ?thesis using assms(1) by (simp add: word_sless_alt)
qed

text \<open>The loop, entered at page \<open>m\<close> with \<open>acc\<close> collected so far.\<close>

lemma Exchanges_loop_pages:
  assumes n: "n < 2 ^ 63"
      and pages: "\<forall>k. 0 < k \<and> k < n \<longrightarrow>
                    pages k \<noteq> [] \<and> fst (ExchangesByPage E (of_nat k)) = Return (pages k, None)"
      and stop: "fst (ExchangesByPage E (of_nat n)) = Return ([], err)"
  shows "0 < m \<Longrightarrow> m \<le> n \<Longrightarrow>
         fst (Exchanges_loop E (of_nat m) acc) = Return (acc @ concat (map pages [m..<n]), None)"
proof (induction "n - m" arbitrary: m acc)
  case 0
  then have m: "m = n" by simp
  with 0 n have pos: "0 <s (of_nat n :: 64 word)" by (intro page_number_positive) simp_all
  obtain reqs where "ExchangesByPage E (of_nat n) = (Return ([], err), reqs)"
    using stop by (cases "ExchangesByPage E (of_nat n)") simp
  with pos show ?case
    by (simp add: m Exchanges_loop.simps [of E "of_nat n" acc])
next
  case (Suc d)
  then have lt: "m < n" by simp
  with Suc.prems n have pos: "0 <s (of_nat m :: 64 word)" by (intro page_number_positive) simp_all
  from pages Suc.prems lt have p: "pages m \<noteq> []"
    "fst (ExchangesByPage E (of_nat m)) = Return (pages m, None)" by simp_all
  then obtain reqs where page: "ExchangesByPage E (of_nat m) = (Return (pages m, None), reqs)"
    by (cases "ExchangesByPage E (of_nat m)") simp
  have next_page: "(of_nat m :: 64 word) + 1 = of_nat (Suc m)" by simp
  have "fst (Exchanges_loop E (of_nat (Suc m)) (acc @ pages m))
          = Return ((acc @ pages m) @ concat (map pages [Suc m..<n]), None)"
    using Suc.hyps(2) lt by (intro Suc.hyps(1)) simp_all
  moreover have "[m..<n] = m # [Suc m..<n]" using lt by (simp add: upt_conv_Cons)
  ultimately show ?case
    using pos page p(1)
    by (cases "Exchanges_loop E (of_nat (Suc m)) (acc @ pages m)")
       (simp add: Exchanges_loop.simps [of E "of_nat m" acc] next_page)
qed

text \<open>
  C2.  Let page \<open>n\<close> be the first page that \<open>ExchangesByPage\<close> returns with zero rows
  (with or without an error), the pages \<open>1, \<dots>, n - 1\<close> before it returning the rows
  \<open>pages 1, \<dots>, pages (n - 1)\<close>, none of them empty.  Then \<open>Exchanges\<close> returns, with the
  nil error, the concatenation \<open>pages 1 @ \<dots> @ pages (n - 1)\<close>: the pages in order, the
  empty one left out.  \<open>Exchanges_loop\<close> is a total function (its termination is proved
  with its definition: the counter is bounded by \<open>2\<^sup>6\<^sup>3\<close>), so the loop ends on every
  environment.
\<close>

theorem Exchanges_concat_pages:
  assumes "0 < n" and "n < 2 ^ 63"
      and "\<forall>k. 0 < k \<and> k < n \<longrightarrow>
             pages k \<noteq> [] \<and> fst (ExchangesByPage E (of_nat k)) = Return (pages k, None)"
      and "fst (ExchangesByPage E (of_nat n)) = Return ([], err)"
  shows "fst (Exchanges E) = Return (concat (map pages [1..<n]), None)"
proof -
  have "fst (Exchanges_loop E (of_nat 1) []) = Return ([] @ concat (map pages [1..<n]), None)"
    using assms(2,3,4) by (rule Exchanges_loop_pages) (use assms(1) in simp_all)
  then show ?thesis by (simp add: Exchanges_def)
qed


text \<open>On \<open>three_pages\<close> the third page is the first without rows.\<close>

theorem Exchanges_concat_pages_witness:
  "fst (ExchangesByPage three_pages 1) = Return ([binance], None)
   \<and> fst (ExchangesByPage three_pages 2) = Return ([okex], None)
   \<and> fst (ExchangesByPage three_pages 3) = Return ([], None)
   \<and> fst (Exchanges three_pages) = Return ([binance, okex], None)"
proof -
  define pages where "pages = (\<lambda>k::nat. if k = 1 then [binance] else if k = 2 then [okex] else [])"
  have p1: "fst (ExchangesByPage three_pages 1) = Return ([binance], None)" by code_simp
  have p2: "fst (ExchangesByPage three_pages 2) = Return ([okex], None)" by code_simp
  have p3: "fst (ExchangesByPage three_pages 3) = Return ([], None)" by code_simp
  have before: "\<forall>k. 0 < k \<and> k < 3 \<longrightarrow>
      pages k \<noteq> [] \<and> fst (ExchangesByPage three_pages (of_nat k)) = Return (pages k, None)"
  proof (intro allI impI)
    fix k :: nat
    assume "0 < k \<and> k < 3"
    then have "k = 1 \<or> k = 2" by arith
    then show "pages k \<noteq> [] \<and> fst (ExchangesByPage three_pages (of_nat k)) = Return (pages k, None)"
      using p1 p2 by (auto simp: pages_def)
  qed
  have stop: "fst (ExchangesByPage three_pages (of_nat 3)) = Return ([], None)"
    using p3 by simp
  have "(0::nat) < 3" and "(3::nat) < 2 ^ 63" by simp_all
  from Exchanges_concat_pages [OF this before stop]
  have "fst (Exchanges three_pages) = Return (concat (map pages [1..<3]), None)" .
  moreover have "[1..<3] = [1, 2 :: nat]" by code_simp
  ultimately have "fst (Exchanges three_pages) = Return ([binance, okex], None)"
    by (simp add: pages_def)
  with p1 p2 p3 show ?thesis by simp
qed


subsection \<open>CoinID: the symbol is normalized before the scan\<close>

lemma normalize_btc: "normalize E ''btc'' = ''BTC''"
  by code_simp

lemma normalize_BTC: "normalize E ''BTC'' = ''BTC''"
  by code_simp

text \<open>
  An ASCII symbol \<open>s\<close> that neither starts nor ends with white space, with ASCII white
  space \<open>l\<close> before and \<open>r\<close> after it, is trimmed to \<open>s\<close> and mapped to upper case.
\<close>

lemma TrimSpace_ascii:
  assumes l: "list_all asciiSpace l" and r: "list_all asciiSpace r"
      and s: "list_all isASCII s" "s \<noteq> []" "\<not> asciiSpace (hd s)" "\<not> asciiSpace (last s)"
  shows "TrimSpace TL TR (l @ s @ r) = s"
proof -
  obtain c cs where c: "s = c # cs" using s(2) by (cases s) auto
  with s have c1: "\<not> asciiSpace c" "isASCII c" by simp_all
  have "dropWhile asciiSpace (l @ s @ r) = dropWhile asciiSpace (s @ r)"
    by (rule dropWhile_append2) (use l in \<open>simp add: list_all_iff\<close>)
  then have left: "dropWhile asciiSpace (l @ s @ r) = c # (cs @ r)"
    using c c1 by simp
  have "dropWhile asciiSpace (rev r @ rev s) = dropWhile asciiSpace (rev s)"
    by (rule dropWhile_append2) (use r in \<open>simp add: list_all_iff\<close>)
  moreover have "rev (c # (cs @ r)) = rev r @ rev s" by (simp add: c)
  ultimately have right0: "dropWhile asciiSpace (rev (c # (cs @ r))) = dropWhile asciiSpace (rev s)"
    by (simp only:)
  obtain d ds where d: "rev s = d # ds" using s(2) by (cases "rev s") auto
  have "hd (rev s) = last s" using s(2) by (simp add: hd_rev)
  with d have dl: "d = last s" by simp
  have "last s \<in> set s" using s(2) by simp
  with s(1) have "isASCII (last s)" by (simp add: list_all_iff)
  with dl s(4) have d1: "\<not> asciiSpace d" "isASCII d" by simp_all
  have right: "dropWhile asciiSpace (rev (c # (cs @ r))) = d # ds"
    using right0 d d1 by simp
  have "rev (rev s) = rev (d # ds)" using d by (simp only:)
  then have rt: "rev (d # ds) = s" by (simp del: rev.simps)
  show ?thesis
    unfolding TrimSpace_def left using c1 d1 right rt by (simp del: rev.simps)
qed

lemma normalize_ascii:
  assumes "list_all asciiSpace l" and "list_all asciiSpace r"
      and "list_all isASCII s" "s \<noteq> []" "\<not> asciiSpace (hd s)" "\<not> asciiSpace (last s)"
  shows "normalize E (l @ s @ r) = map upper_byte s"
  using assms by (simp add: normalize_def TrimSpace_ascii ToUpper_def)

text \<open>The scan over listings none of which is nil or carries the symbol.\<close>

lemma CoinID_scan_absent:
  "list_all (\<lambda>l. case l of None \<Rightarrow> False | Some x \<Rightarrow> Listing.Symbol x \<noteq> symbol) ls \<Longrightarrow>
   CoinID_scan ls symbol = Return (0, Some (ErrorsNew ''coin not found''))"
proof (induction ls)
  case Nil
  then show ?case by simp
next
  case (Cons l ls)
  then show ?case by (cases l) simp_all
qed

lemma CoinID_absent:
  assumes "fst (Listings E) = Return (ls, None)"
      and "list_all (\<lambda>l. case l of None \<Rightarrow> False | Some x \<Rightarrow> Listing.Symbol x \<noteq> normalize E symbol) ls"
  shows "fst (CoinID E symbol) = Return (0, Some (ErrorsNew ''coin not found''))"
  using assms
  by (cases "Listings E") (simp add: CoinID_def io_bind_def CoinID_scan_absent)

lemma CoinID_normalize: "normalize E a = normalize E b \<Longrightarrow> CoinID E a = CoinID E b"
  by (simp add: CoinID_def)

text \<open>
  C7.  For every environment, and so for every listing set, \<open>CoinID ''btc''\<close> and
  \<open>CoinID ''BTC''\<close> are the same run with the same result.  More generally two ASCII
  spellings that differ in case and in surrounding white space give the same result.  When
  the listings are fetched and none of them has the symbol \<open>BTC\<close>, both calls return
  \<^verbatim>\<open>errors.New("coin not found")\<close> with the id 0.
\<close>

theorem CoinID_case_insensitive:
  "CoinID E ''btc'' = CoinID E ''BTC''
   \<and> (\<forall>l r l' r' s t.
         list_all asciiSpace (l @ r @ l' @ r') \<and> list_all isASCII (s @ t)
         \<and> s \<noteq> [] \<and> \<not> asciiSpace (hd s) \<and> \<not> asciiSpace (last s)
         \<and> t \<noteq> [] \<and> \<not> asciiSpace (hd t) \<and> \<not> asciiSpace (last t)
         \<and> map upper_byte s = map upper_byte t
         \<longrightarrow> CoinID E (l @ s @ r) = CoinID E (l' @ t @ r'))
   \<and> (\<forall>ls. fst (Listings E) = Return (ls, None)
         \<and> list_all (\<lambda>l. case l of None \<Rightarrow> False | Some x \<Rightarrow> Listing.Symbol x \<noteq> ''BTC'') ls
         \<longrightarrow> fst (CoinID E ''btc'') = Return (0, Some (ErrorsNew ''coin not found''))
           \<and> fst (CoinID E ''BTC'') = Return (0, Some (ErrorsNew ''coin not found'')))"
proof (intro conjI allI impI)
  show "CoinID E ''btc'' = CoinID E ''BTC''"
    by (rule CoinID_normalize) (simp only: normalize_btc normalize_BTC)
next
  fix l r l' r' s t
  assume a: "list_all asciiSpace (l @ r @ l' @ r') \<and> list_all isASCII (s @ t)
         \<and> s \<noteq> [] \<and> \<not> asciiSpace (hd s) \<and> \<not> asciiSpace (last s)
         \<and> t \<noteq> [] \<and> \<not> asciiSpace (hd t) \<and> \<not> asciiSpace (last t)
         \<and> map upper_byte s = map upper_byte t"
  then have "normalize E (l @ s @ r) = map upper_byte s"
    by (intro normalize_ascii) simp_all
  moreover from a have "normalize E (l' @ t @ r') = map upper_byte t"
    by (intro normalize_ascii) simp_all
  ultimately show "CoinID E (l @ s @ r) = CoinID E (l' @ t @ r')"
    using a by (intro CoinID_normalize) simp
next
  fix ls
  assume a: "fst (Listings E) = Return (ls, None)
         \<and> list_all (\<lambda>l. case l of None \<Rightarrow> False | Some x \<Rightarrow> Listing.Symbol x \<noteq> ''BTC'') ls"
  then show "fst (CoinID E ''btc'') = Return (0, Some (ErrorsNew ''coin not found''))"
    by (intro CoinID_absent [of E ls]) (simp_all only: normalize_btc)
  from a show "fst (CoinID E ''BTC'') = Return (0, Some (ErrorsNew ''coin not found''))"
    by (intro CoinID_absent [of E ls]) (simp_all only: normalize_BTC)
qed

text \<open>On \<open>only_eth_listed\<close>: \<open>'' eth ''\<close> finds Ethereum, and \<open>btc\<close> is not found.\<close>

theorem CoinID_case_insensitive_witness:
  "CoinID only_eth_listed '' eth '' = CoinID only_eth_listed ''ETH''
   \<and> CoinID only_eth_listed ''ETH''
       = (Return (1027, None), [''https://api.coinmarketcap.com/v2/listings''])
   \<and> CoinID only_eth_listed ''btc'' = CoinID only_eth_listed ''BTC''
   \<and> fst (CoinID only_eth_listed ''btc'') = Return (0, Some (ErrorsNew ''coin not found''))"
proof -
  note T = CoinID_case_insensitive [of only_eth_listed]
  have h2: "list_all asciiSpace ('' '' @ '' '' @ [] @ []) \<and> list_all isASCII (''eth'' @ ''ETH'')
         \<and> ''eth'' \<noteq> [] \<and> \<not> asciiSpace (hd ''eth'') \<and> \<not> asciiSpace (last ''eth'')
         \<and> ''ETH'' \<noteq> [] \<and> \<not> asciiSpace (hd ''ETH'') \<and> \<not> asciiSpace (last ''ETH'')
         \<and> map upper_byte ''eth'' = map upper_byte ''ETH''"
    by code_simp
  have h3: "fst (Listings only_eth_listed)
              = Return ([Some \<lparr>Listing.ID = 1027, Listing.Name = ''Ethereum'',
                               Listing.Symbol = ''ETH'', Listing.Slug = ''ethereum''\<rparr>], None)
         \<and> list_all (\<lambda>l. case l of None \<Rightarrow> False | Some x \<Rightarrow> Listing.Symbol x \<noteq> ''BTC'')
              [Some \<lparr>Listing.ID = 1027, Listing.Name = ''Ethereum'',
                      Listing.Symbol = ''ETH'', Listing.Slug = ''ethereum''\<rparr>]"
    by code_simp
  from T h2 have "CoinID only_eth_listed ('' '' @ ''eth'' @ '' '') = CoinID only_eth_listed ([] @ ''ETH'' @ [])"
    by blast
  then have a: "CoinID only_eth_listed '' eth '' = CoinID only_eth_listed ''ETH''" by simp
  have b: "CoinID only_eth_listed ''ETH''
       = (Return (1027, None), [''https://api.coinmarketcap.com/v2/listings''])"
    by code_simp
  from T have c: "CoinID only_eth_listed ''btc'' = CoinID only_eth_listed ''BTC''" by blast
  from T h3 have d: "fst (CoinID only_eth_listed ''btc'') = Return (0, Some (ErrorsNew ''coin not found''))"
    by blast
  from a b c d show ?thesis by simp
qed


subsection \<open>Coercion: stripping, and the value kept when the parser fails\<close>

text \<open>Removing one byte everywhere is a filter.\<close>

lemma Replace_byte: "Replace s [c] [] = filter (\<lambda>x. x \<noteq> c) s"
  by (induction s) auto


lemma toInt_strips:
  "toInt E raw = fst (Atoi E (filter (\<lambda>c. c \<noteq> CHR ''$'' \<and> c \<noteq> CHR '','') raw))"
proof -
  have "filter (\<lambda>x. x \<noteq> CHR '','') (filter (\<lambda>x. x \<noteq> CHR ''$'') raw)
          = filter (\<lambda>c. c \<noteq> CHR ''$'' \<and> c \<noteq> CHR '','') raw"
    by (induction raw) auto
  then show ?thesis by (simp add: toInt_def Replace_byte)
qed



end
